theory Spec2Isabelle
  imports Main "HOL-Library.Multiset"
begin

section \<open>Exceptions (src/core/errors.py)\<close>

text \<open>
  A value of \<open>exc\<close> is an instance of Python's \<open>Exception\<close> class: its class and the
  text that \<open>str(e)\<close> gives. The first seven classes derive from \<open>ResolveError\<close>
  (errors.py); the others are built-in classes that the code raises or catches by name,
  and \<open>OtherException\<close> stands for every remaining subclass of \<open>Exception\<close>.
\<close>

datatype exc_class =
    NotConnectedError | NoProjectError | NoTimelineError | NoMediaPoolError
  | ClipNotFoundError | TimelineItemNotFoundError | InvalidParameterError
  | ValueError | ImportError | AttributeError | KeyError | OtherException

datatype exc = Exc (exc_cls: exc_class) (exc_str: string)

type_synonym 'a result = "exc + 'a"

fun is_ResolveError :: "exc_class \<Rightarrow> bool" where
  "is_ResolveError NotConnectedError = True"
| "is_ResolveError NoProjectError = True"
| "is_ResolveError NoTimelineError = True"
| "is_ResolveError NoMediaPoolError = True"
| "is_ResolveError ClipNotFoundError = True"
| "is_ResolveError TimelineItemNotFoundError = True"
| "is_ResolveError InvalidParameterError = True"
| "is_ResolveError ValueError = False"
| "is_ResolveError ImportError = False"
| "is_ResolveError AttributeError = False"
| "is_ResolveError KeyError = False"
| "is_ResolveError OtherException = False"

text \<open>The default messages of the constructors in errors.py.\<close>

definition NotConnected :: exc where
  "NotConnected = Exc NotConnectedError ''Not connected to DaVinci Resolve''"

definition NoProject :: exc where
  "NoProject = Exc NoProjectError ''No project currently open''"

definition NoTimeline :: exc where
  "NoTimeline = Exc NoTimelineError ''No timeline currently active''"

definition NoMediaPool :: exc where
  "NoMediaPool = Exc NoMediaPoolError ''Failed to get Media Pool''"

section \<open>Strings\<close>

text \<open>
  \<open>str.lower()\<close> on the ASCII letters. Python lower-cases other code points as well, but
  none of them becomes a letter of the names compared below (the only non-ASCII code
  point whose lower case is one ASCII letter is the Kelvin sign, giving \<open>k\<close>), so
  membership in the lists of lower-case ASCII names is the same.
\<close>

definition lower_char :: "char \<Rightarrow> char" where
  "lower_char c =
     (case map_of (zip ''ABCDEFGHIJKLMNOPQRSTUVWXYZ'' ''abcdefghijklmnopqrstuvwxyz'') c of
        Some l \<Rightarrow> l
      | None \<Rightarrow> c)"

definition lower :: "string \<Rightarrow> string" where
  "lower s = map lower_char s"

text \<open>Python truthiness of an optional string: \<open>None\<close> and the empty string are false.\<close>

fun truthy_str :: "string option \<Rightarrow> bool" where
  "truthy_str None = False"
| "truthy_str (Some s) = (s \<noteq> [])"

text \<open>\<open>xs or []\<close> for a list that the external API may return as \<open>None\<close>.\<close>

fun or_empty :: "'a list option \<Rightarrow> 'a list" where
  "or_empty None = []"
| "or_empty (Some xs) = xs"

section \<open>The objects of the external scripting API\<close>

text \<open>
  The external application's objects are opaque to the repository; the model records, for
  each object, what the methods called by src/core return. \<open>None\<close> is Python's \<open>None\<close>.
\<close>

datatype Clip = Clip (clip_GetName: string) (clip_handle: nat)

datatype Folder =
  Folder (folder_GetName: string) (GetClipList: "Clip list option")
         (GetSubFolderList: "Folder list option")

datatype TimelineItem = TimelineItem (GetUniqueId: string) (item_handle: nat)

record Timeline =
  timeline_GetName :: string
  GetTrackCount :: "string \<Rightarrow> int"
  GetItemListInTrack :: "string \<Rightarrow> int \<Rightarrow> TimelineItem list option"

datatype MediaPool = MediaPool (GetRootFolder: Folder)

datatype Gallery = Gallery nat

datatype MediaStorage = MediaStorage nat

record Project =
  GetMediaPool :: "MediaPool option"
  GetCurrentTimeline :: "Timeline option"
  GetGallery :: "Gallery option"

record ProjectManager =
  GetCurrentProject :: "Project option"

text \<open>
  The application object. \<open>OpenPage(p)\<close> answers whether the page was opened
  (\<open>page_available\<close>), and then \<open>GetCurrentPage\<close> gives \<open>p\<close>; \<open>OpenPage_calls\<close> keeps, in
  order, the arguments of the calls the application received.
\<close>

record Resolve =
  GetProjectManager :: "ProjectManager option"
  GetMediaStorage :: "MediaStorage option"
  GetCurrentPage :: "string option"
  GetProductName :: "string result"
  GetVersionString :: "string result"
  page_available :: "string \<Rightarrow> bool"
  OpenPage_calls :: "string list"

definition OpenPage :: "string \<Rightarrow> Resolve \<Rightarrow> bool \<times> Resolve" where
  "OpenPage p r =
     (page_available r p,
      r\<lparr>GetCurrentPage := (if page_available r p then Some p else GetCurrentPage r),
        OpenPage_calls := OpenPage_calls r @ [p]\<rparr>)"

section \<open>ResolveConnection (src/core/connection.py)\<close>

text \<open>
  The attributes of the connection object; \<open>p_\<close> stands for the leading underscore of the
  Python names. \<open>switch_page_calls\<close> is a trace that belongs to the model only: the
  arguments of the calls of \<open>switch_page\<close>, in order.
\<close>

record ResolveConnection =
  p_initialized :: bool
  p_resolve :: "Resolve option"
  p_api_path :: string
  p_lib_path :: string
  p_modules_path :: string
  switch_page_calls :: "string list"

definition is_connected :: "ResolveConnection \<Rightarrow> bool" where
  "is_connected c = (p_resolve c \<noteq> None)"

definition resolve :: "ResolveConnection \<Rightarrow> Resolve result" where
  "resolve c = (case p_resolve c of None \<Rightarrow> Inl NotConnected | Some r \<Rightarrow> Inr r)"

definition project_manager :: "ResolveConnection \<Rightarrow> ProjectManager result" where
  "project_manager c =
     (case resolve c of
        Inl e \<Rightarrow> Inl e
      | Inr r \<Rightarrow>
          (case GetProjectManager r of
             None \<Rightarrow> Inl (Exc NotConnectedError ''Failed to get Project Manager'')
           | Some pm \<Rightarrow> Inr pm))"

definition current_project :: "ResolveConnection \<Rightarrow> Project result" where
  "current_project c =
     (case project_manager c of
        Inl e \<Rightarrow> Inl e
      | Inr pm \<Rightarrow>
          (case GetCurrentProject pm of None \<Rightarrow> Inl NoProject | Some project \<Rightarrow> Inr project))"

definition media_pool :: "ResolveConnection \<Rightarrow> MediaPool result" where
  "media_pool c =
     (case current_project c of
        Inl e \<Rightarrow> Inl e
      | Inr project \<Rightarrow>
          (case GetMediaPool project of None \<Rightarrow> Inl NoMediaPool | Some mp \<Rightarrow> Inr mp))"

definition current_timeline :: "ResolveConnection \<Rightarrow> Timeline result" where
  "current_timeline c =
     (case current_project c of
        Inl e \<Rightarrow> Inl e
      | Inr project \<Rightarrow>
          (case GetCurrentTimeline project of
             None \<Rightarrow> Inl NoTimeline
           | Some timeline \<Rightarrow> Inr timeline))"

text \<open>
  \<open>media_storage\<close> and \<open>gallery\<close> return what the external call gives, unchecked: the
  result is an optional object.
\<close>

definition media_storage :: "ResolveConnection \<Rightarrow> MediaStorage option result" where
  "media_storage c =
     (case resolve c of Inl e \<Rightarrow> Inl e | Inr r \<Rightarrow> Inr (GetMediaStorage r))"

definition gallery :: "ResolveConnection \<Rightarrow> Gallery option result" where
  "gallery c =
     (case current_project c of Inl e \<Rightarrow> Inl e | Inr project \<Rightarrow> Inr (GetGallery project))"

definition get_current_page :: "ResolveConnection \<Rightarrow> string option result" where
  "get_current_page c =
     (case resolve c of Inl e \<Rightarrow> Inl e | Inr r \<Rightarrow> Inr (GetCurrentPage r))"

definition valid_pages :: "string list" where
  "valid_pages =
     [''media'', ''cut'', ''edit'', ''fusion'', ''color'', ''fairlight'', ''deliver'']"

definition invalid_page_message :: string where
  "invalid_page_message =
     ''Invalid page. Must be one of: media, cut, edit, fusion, color, fairlight, deliver''"

text \<open>
  \<open>switch_page\<close>: the membership test comes first, then the \<open>resolve\<close> property, then the
  external call, whose answer is returned.
\<close>

definition switch_page :: "string \<Rightarrow> ResolveConnection \<Rightarrow> bool result \<times> ResolveConnection" where
  "switch_page page c0 =
     (let c = c0\<lparr>switch_page_calls := switch_page_calls c0 @ [page]\<rparr> in
      if lower page \<notin> set valid_pages then (Inl (Exc ValueError invalid_page_message), c)
      else
        (case resolve c of
           Inl e \<Rightarrow> (Inl e, c)
         | Inr r \<Rightarrow>
             (let (ok, r') = OpenPage (lower page) r in (Inr ok, c\<lparr>p_resolve := Some r'\<rparr>))))"

subsection \<open>Traversals of the media pool\<close>

text \<open>Python truthiness of an optional list: \<open>None\<close> and the empty list are false.\<close>

fun truthy_list :: "'a list option \<Rightarrow> bool" where
  "truthy_list None = False"
| "truthy_list (Some xs) = (xs \<noteq> [])"

text \<open>
  \<open>get_all_clips\<close> with a folder given. The second function is the \<open>for\<close> loop over the
  sub-folders, with the list \<open>clips\<close> built so far.
\<close>

function get_all_clips_folder :: "Folder \<Rightarrow> Clip list"
  and get_all_clips_loop :: "Folder list \<Rightarrow> Clip list \<Rightarrow> Clip list" where
  "get_all_clips_folder folder =
     (let clips = [];
          folder_clips = GetClipList folder;
          clips = (if truthy_list folder_clips then clips @ or_empty folder_clips else clips)
      in get_all_clips_loop (or_empty (GetSubFolderList folder)) clips)"
| "get_all_clips_loop [] clips = clips"
| "get_all_clips_loop (sub_folder # rest) clips =
     get_all_clips_loop rest (clips @ get_all_clips_folder sub_folder)"
  by pat_completeness auto
termination
  apply (relation "measure (\<lambda>x. case x of Inl f \<Rightarrow> 2 * size f
                                       | Inr (fs, _) \<Rightarrow> 2 * size_list size fs + 1)")
     apply simp
  subgoal for folder by (cases folder; cases "GetSubFolderList folder"; simp)
   apply simp
  apply simp
  done

function get_all_folders_folder :: "Folder \<Rightarrow> Folder list"
  and get_all_folders_loop :: "Folder list \<Rightarrow> Folder list \<Rightarrow> Folder list" where
  "get_all_folders_folder folder =
     get_all_folders_loop (or_empty (GetSubFolderList folder)) [folder]"
| "get_all_folders_loop [] folders = folders"
| "get_all_folders_loop (sub_folder # rest) folders =
     get_all_folders_loop rest (folders @ get_all_folders_folder sub_folder)"
  by pat_completeness auto
termination
  apply (relation "measure (\<lambda>x. case x of Inl f \<Rightarrow> 2 * size f
                                       | Inr (fs, _) \<Rightarrow> 2 * size_list size fs + 1)")
     apply simp
  subgoal for folder by (cases folder; cases "GetSubFolderList folder"; simp)
   apply simp
  apply simp
  done

text \<open>The methods: with \<open>folder=None\<close> the traversal starts at the media pool's root.\<close>

definition get_all_clips :: "Folder option \<Rightarrow> ResolveConnection \<Rightarrow> Clip list result" where
  "get_all_clips folder c =
     (case folder of
        None \<Rightarrow>
          (case media_pool c of
             Inl e \<Rightarrow> Inl e
           | Inr mp \<Rightarrow> Inr (get_all_clips_folder (GetRootFolder mp)))
      | Some f \<Rightarrow> Inr (get_all_clips_folder f))"

definition get_all_folders :: "Folder option \<Rightarrow> ResolveConnection \<Rightarrow> Folder list result" where
  "get_all_folders folder c =
     (case folder of
        None \<Rightarrow>
          (case media_pool c of
             Inl e \<Rightarrow> Inl e
           | Inr mp \<Rightarrow> Inr (get_all_folders_folder (GetRootFolder mp)))
      | Some f \<Rightarrow> Inr (get_all_folders_folder f))"

text \<open>The \<open>for\<close> loop of \<open>find_folder_by_name\<close>, leaving at the first equal name.\<close>

fun find_folder_loop :: "Folder list \<Rightarrow> string \<Rightarrow> Folder option" where
  "find_folder_loop [] name = None"
| "find_folder_loop (folder # rest) name =
     (if folder_GetName folder = name then Some folder else find_folder_loop rest name)"

text \<open>
  \<open>find_folder_by_name\<close>. The second component of the result belongs to the model only:
  the folders that the call visited, in order (the list that \<open>get_all_folders\<close> built).
\<close>

definition find_folder_by_name ::
    "string \<Rightarrow> ResolveConnection \<Rightarrow> (Folder option \<times> Folder list) result" where
  "find_folder_by_name name c =
     (if lower name \<in> set [''root'', ''master''] then
        (case media_pool c of
           Inl e \<Rightarrow> Inl e
         | Inr mp \<Rightarrow> Inr (Some (GetRootFolder mp), []))
      else
        (case get_all_folders None c of
           Inl e \<Rightarrow> Inl e
         | Inr folders \<Rightarrow> Inr (find_folder_loop folders name, folders)))"

subsection \<open>Timeline items\<close>

text \<open>
  The three nested loops of \<open>find_timeline_item_by_id\<close>, innermost first. An item's
  \<open>GetUniqueId\<close> is taken as the string that \<open>str\<close> makes of it.
\<close>

fun find_item_loop :: "TimelineItem list \<Rightarrow> string \<Rightarrow> TimelineItem option" where
  "find_item_loop [] item_id = None"
| "find_item_loop (item # rest) item_id =
     (if GetUniqueId item = item_id then Some item else find_item_loop rest item_id)"

fun find_track_loop ::
    "Timeline \<Rightarrow> string \<Rightarrow> int list \<Rightarrow> string \<Rightarrow> (TimelineItem \<times> string \<times> int) option" where
  "find_track_loop timeline track_type [] item_id = None"
| "find_track_loop timeline track_type (track_idx # rest) item_id =
     (let items = GetItemListInTrack timeline track_type track_idx in
      case (if truthy_list items then find_item_loop (or_empty items) item_id else None) of
        Some item \<Rightarrow> Some (item, track_type, track_idx)
      | None \<Rightarrow> find_track_loop timeline track_type rest item_id)"

fun find_track_type_loop ::
    "Timeline \<Rightarrow> string list \<Rightarrow> string \<Rightarrow> (TimelineItem \<times> string \<times> int) option" where
  "find_track_type_loop timeline [] item_id = None"
| "find_track_type_loop timeline (track_type # rest) item_id =
     (let track_count = GetTrackCount timeline track_type in
      case find_track_loop timeline track_type [1..track_count] item_id of
        Some found \<Rightarrow> Some found
      | None \<Rightarrow> find_track_type_loop timeline rest item_id)"

definition find_timeline_item_by_id ::
    "string \<Rightarrow> ResolveConnection \<Rightarrow> (TimelineItem \<times> string \<times> int) option result" where
  "find_timeline_item_by_id item_id c =
     (case current_timeline c of
        Inl e \<Rightarrow> Inl e
      | Inr timeline \<Rightarrow>
          Inr (find_track_type_loop timeline [''video'', ''audio'', ''subtitle''] item_id))"

section \<open>Decorators (src/core/decorators.py)\<close>

text \<open>
  A handler, with its arguments, is a function of the state of the connection that
  returns or raises and leaves a new state. A wrapped handler returns \<open>str | T\<close>.
\<close>

type_synonym 'b handler = "ResolveConnection \<Rightarrow> 'b result \<times> ResolveConnection"

datatype 'b response = Returned 'b | ErrorString string

text \<open>
  \<open>handle_resolve_errors\<close> tells what is raised apart by class, so for it what a handler
  raises is either an instance of \<open>Exception\<close> (a value of \<open>exc\<close>) or an exception whose
  class derives from \<open>BaseException\<close> only, with the text that \<open>str\<close> gives. The clauses
  \<open>except ResolveError\<close> and \<open>except Exception\<close> catch the first kind; the second kind
  leaves the wrapper as it came.
\<close>

datatype base_only_class = KeyboardInterrupt | SystemExit | GeneratorExit

datatype raised = ExceptionInstance exc | BaseOnly base_only_class string

type_synonym 'b raising_handler =
  "ResolveConnection \<Rightarrow> (raised + 'b) \<times> ResolveConnection"

definition handle_resolve_errors ::
    "('a \<Rightarrow> 'b raising_handler) \<Rightarrow> 'a \<Rightarrow> 'b response raising_handler" where
  "handle_resolve_errors func args c =
     (case func args c of
        (Inr v, c1) \<Rightarrow> (Inr (Returned v), c1)
      | (Inl (ExceptionInstance e), c1) \<Rightarrow>
          (if is_ResolveError (exc_cls e) then (Inr (ErrorString (''Error: '' @ exc_str e)), c1)
           else (Inr (ErrorString (''Error: '' @ exc_str e)), c1))
      | (Inl (BaseOnly k m), c1) \<Rightarrow> (Inl (BaseOnly k m), c1))"

text \<open>
  \<open>try: ... finally: ...\<close>: the final block runs on every way out of the body; when it
  raises, its exception replaces the body's outcome.
\<close>

definition try_finally ::
    "('s \<Rightarrow> 'b result \<times> 's) \<Rightarrow> ('s \<Rightarrow> unit result \<times> 's) \<Rightarrow> 's \<Rightarrow> 'b result \<times> 's" where
  "try_finally body final s =
     (let (r, s1) = body s; (rf, s2) = final s1 in
      case rf of Inl e \<Rightarrow> (Inl e, s2) | Inr u \<Rightarrow> (r, s2))"

definition with_page :: "string \<Rightarrow> ('a \<Rightarrow> 'b handler) \<Rightarrow> 'a \<Rightarrow> 'b handler" where
  "with_page page func args c =
     (case get_current_page c of
        Inl e \<Rightarrow> (Inl e, c)
      | Inr original_page \<Rightarrow>
          try_finally
            (\<lambda>c. if original_page \<noteq> Some page then
                    (case switch_page page c of
                       (Inl e, c1) \<Rightarrow> (Inl e, c1)
                     | (Inr ok, c1) \<Rightarrow> func args c1)
                  else func args c)
            (\<lambda>c. if truthy_str original_page \<and> original_page \<noteq> Some page then
                    (case switch_page (case original_page of Some p \<Rightarrow> p | None \<Rightarrow> []) c of
                       (Inl e, c1) \<Rightarrow> (Inl e, c1)
                     | (Inr ok, c1) \<Rightarrow> (Inr (), c1))
                  else (Inr (), c))
            c)"

section \<open>Connecting and the singleton\<close>

text \<open>
  What the environment does when \<open>_connect\<close> runs: the import of the scripting module
  fails, or \<open>scriptapp("Resolve")\<close> raises, or it returns a handle or \<open>None\<close>.
\<close>

datatype scriptapp_outcome =
    ImportFails string
  | ScriptappRaises exc
  | ScriptappReturns "Resolve option"

text \<open>The body of the \<open>try\<close> in \<open>_connect\<close>; both log messages read the handle.\<close>

definition connect_try :: "scriptapp_outcome \<Rightarrow> ResolveConnection \<Rightarrow> unit result \<times> ResolveConnection" where
  "connect_try outcome c =
     (case outcome of
        ImportFails m \<Rightarrow> (Inl (Exc ImportError m), c)
      | ScriptappRaises e \<Rightarrow> (Inl e, c)
      | ScriptappReturns h \<Rightarrow>
          (let c1 = c\<lparr>p_resolve := h\<rparr> in
           case h of
             None \<Rightarrow> (Inr (), c1)
           | Some r \<Rightarrow>
               (case GetProductName r of
                  Inl e \<Rightarrow> (Inl e, c1)
                | Inr product \<Rightarrow>
                    (case GetVersionString r of
                       Inl e \<Rightarrow> (Inl e, c1)
                     | Inr version \<Rightarrow> (Inr (), c1)))))"

definition p_connect :: "scriptapp_outcome \<Rightarrow> ResolveConnection \<Rightarrow> ResolveConnection" where
  "p_connect outcome c =
     (case connect_try outcome c of
        (Inr u, c1) \<Rightarrow> c1
      | (Inl e, c1) \<Rightarrow>
          (if exc_cls e = ImportError then c1\<lparr>p_resolve := None\<rparr>
           else c1\<lparr>p_resolve := None\<rparr>))"

definition reconnect :: "scriptapp_outcome \<Rightarrow> ResolveConnection \<Rightarrow> bool \<times> ResolveConnection" where
  "reconnect outcome c = (let c1 = p_connect outcome c in (is_connected c1, c1))"

text \<open>
  The handle that an attempt acquires, in the words of the specification: none when the
  import fails, when an exception is raised, or when the handle is null.
\<close>

fun attempt_handle :: "scriptapp_outcome \<Rightarrow> Resolve option" where
  "attempt_handle (ImportFails m) = None"
| "attempt_handle (ScriptappRaises e) = None"
| "attempt_handle (ScriptappReturns None) = None"
| "attempt_handle (ScriptappReturns (Some r)) =
     (if isl (GetProductName r) \<or> isl (GetVersionString r) then None else Some r)"









section \<open>The specification's words\<close>

text \<open>Pre-order listings of a folder tree, by structural recursion.\<close>

primrec clips_preorder :: "Folder \<Rightarrow> Clip list" where
  "clips_preorder (Folder n cl sf) =
     or_empty cl @ concat (or_empty (map_option (map clips_preorder) sf))"

primrec folders_preorder :: "Folder \<Rightarrow> Folder list" where
  "folders_preorder (Folder n cl sf) =
     Folder n cl sf # concat (or_empty (map_option (map folders_preorder) sf))"

text \<open>The number of clips of a tree and the multiset of its clips.\<close>

primrec total_clips :: "Folder \<Rightarrow> nat" where
  "total_clips (Folder n cl sf) =
     length (or_empty cl) + sum_list (or_empty (map_option (map total_clips) sf))"

primrec clips_mset :: "Folder \<Rightarrow> Clip multiset" where
  "clips_mset (Folder n cl sf) =
     mset (or_empty cl) + sum_list (or_empty (map_option (map clips_mset) sf))"

text \<open>
  The order in which the items of a timeline are scanned: track types in the order given,
  track indices from 1 up to the track count, each track's items in order; and what it is
  for a scanned item to have the identifier looked for.
\<close>

definition has_id :: "string \<Rightarrow> TimelineItem \<times> string \<times> int \<Rightarrow> bool" where
  "has_id item_id found = (GetUniqueId (fst found) = item_id)"

definition scan_order :: "Timeline \<Rightarrow> (TimelineItem \<times> string \<times> int) list" where
  "scan_order timeline =
     concat (map (\<lambda>track_type.
        concat (map (\<lambda>track_idx.
           map (\<lambda>item. (item, track_type, track_idx))
               (or_empty (GetItemListInTrack timeline track_type track_idx)))
           [1..GetTrackCount timeline track_type]))
        [''video'', ''audio'', ''subtitle''])"

section \<open>Concrete states\<close>

definition app0 :: Resolve where
  "app0 =
     \<lparr>GetProjectManager = None, GetMediaStorage = None, GetCurrentPage = Some ''edit'',
      GetProductName = Inr ''DaVinci Resolve'', GetVersionString = Inr ''20.0'',
      page_available = (\<lambda>p. True), OpenPage_calls = []\<rparr>"

definition conn_of :: "Resolve option \<Rightarrow> ResolveConnection" where
  "conn_of h =
     \<lparr>p_initialized = True, p_resolve = h, p_api_path = [], p_lib_path = [],
      p_modules_path = [], switch_page_calls = []\<rparr>"

definition project0 :: Project where
  "project0 = \<lparr>GetMediaPool = None, GetCurrentTimeline = None, GetGallery = None\<rparr>"

text \<open>Connected, with a project manager that has no open project.\<close>

definition conn_no_project :: ResolveConnection where
  "conn_no_project =
     conn_of (Some (app0\<lparr>GetProjectManager := Some \<lparr>GetCurrentProject = None\<rparr>\<rparr>))"

text \<open>Connected, with an open project whose gallery is absent, and no media storage.\<close>

definition conn_no_gallery :: ResolveConnection where
  "conn_no_gallery =
     conn_of (Some (app0\<lparr>GetProjectManager := Some \<lparr>GetCurrentProject = Some project0\<rparr>\<rparr>))"

text \<open>A media pool: the root folder, two sub-folders, one of them with a sub-folder.\<close>

definition tree0 :: Folder where
  "tree0 =
     Folder ''Master'' (Some [Clip ''a.mov'' 1])
       (Some [Folder ''Day1'' None
                (Some [Folder ''root'' (Some [Clip ''b.mov'' 2, Clip ''c.mov'' 3]) None]),
              Folder ''Day2'' (Some []) (Some []),
              Folder ''Day1'' (Some [Clip ''d.mov'' 4]) None])"

text \<open>
  A timeline with two video tracks and one audio track; the second video track and the
  audio track each hold an item with the identifier \<open>dup\<close>.
\<close>

definition timeline0 :: Timeline where
  "timeline0 =
     \<lparr>timeline_GetName = ''Timeline 1'',
      GetTrackCount = (\<lambda>t. if t = ''video'' then 2 else if t = ''audio'' then 1 else 0),
      GetItemListInTrack = (\<lambda>t i.
        if t = ''video'' \<and> i = 2 then Some [TimelineItem ''a1'' 10, TimelineItem ''dup'' 11]
        else if t = ''audio'' \<and> i = 1 then Some [TimelineItem ''dup'' 12]
        else None)\<rparr>"

text \<open>Connected, with a project that has the media pool and the timeline above.\<close>

definition conn_full :: ResolveConnection where
  "conn_full =
     conn_of (Some (app0\<lparr>GetProjectManager := Some \<lparr>GetCurrentProject = Some
       \<lparr>GetMediaPool = Some (MediaPool tree0), GetCurrentTimeline = Some timeline0,
        GetGallery = Some (Gallery 0)\<rparr>\<rparr>\<rparr>))"

text \<open>Handlers: one that returns its argument, one that raises the given exception.\<close>

definition returning :: "nat \<Rightarrow> nat handler" where
  "returning x c = (Inr x, c)"

definition raising :: "exc \<Rightarrow> nat handler" where
  "raising e c = (Inl e, c)"

text \<open>The same for the error-to-string wrapper, and a handler that is interrupted.\<close>

definition handler_returns :: "nat \<Rightarrow> nat raising_handler" where
  "handler_returns x c = (Inr x, c)"

definition handler_raises :: "raised \<Rightarrow> nat raising_handler" where
  "handler_raises r c = (Inl r, c)"







section \<open>The layers of the connection\<close>

lemma lower_valid_page: "v \<in> set valid_pages \<Longrightarrow> lower v = v"
  by (auto simp: valid_pages_def lower_def lower_char_def)

text \<open>Each accessor fails exactly as the accessor of the next shallower layer does.\<close>

lemma project_manager_revalidates: "resolve c = Inl e \<Longrightarrow> project_manager c = Inl e"
  by (simp add: project_manager_def)

lemma current_project_revalidates: "project_manager c = Inl e \<Longrightarrow> current_project c = Inl e"
  by (simp add: current_project_def)

lemma current_timeline_revalidates: "current_project c = Inl e \<Longrightarrow> current_timeline c = Inl e"
  by (simp add: current_timeline_def)

lemma media_pool_revalidates: "current_project c = Inl e \<Longrightarrow> media_pool c = Inl e"
  by (simp add: media_pool_def)

lemma resolve_absent: "p_resolve c = None \<Longrightarrow> resolve c = Inl NotConnected"
  by (simp add: resolve_def)

lemma current_project_no_project:
  "project_manager c = Inr pm \<Longrightarrow> GetCurrentProject pm = None \<Longrightarrow> current_project c = Inl NoProject"
  by (simp add: current_project_def)

text \<open>
  C1. The missing-layer conditions form a strict hierarchy. In every state of the
  connection: with the application handle absent, \<open>current_project\<close> raises not-connected
  (and so not no-project); with the handle and the project manager present and no project
  open, \<open>current_timeline\<close> raises no-project (and so not no-timeline); and each accessor
  re-validates the shallower layers first: whatever \<open>resolve\<close> raises, \<open>project_manager\<close>
  raises; whatever \<open>project_manager\<close> raises, \<open>current_project\<close> raises; whatever
  \<open>current_project\<close> raises, \<open>current_timeline\<close> raises. So no-project is raised only when
  the project manager was obtained, and no-timeline only when a project was obtained.
\<close>

theorem missing_layer_hierarchy:
  "(p_resolve c = None \<longrightarrow>
      current_project c = Inl NotConnected \<and> exc_cls NotConnected = NotConnectedError)
   \<and> (\<forall>pm. project_manager c = Inr pm \<and> GetCurrentProject pm = None \<longrightarrow>
        current_timeline c = Inl NoProject \<and> exc_cls NoProject = NoProjectError)
   \<and> (\<forall>e. resolve c = Inl e \<longrightarrow> project_manager c = Inl e)
   \<and> (\<forall>e. project_manager c = Inl e \<longrightarrow> current_project c = Inl e)
   \<and> (\<forall>e. current_project c = Inl e \<longrightarrow> current_timeline c = Inl e)
   \<and> (current_project c = Inl NoProject \<longrightarrow> (\<exists>pm. project_manager c = Inr pm))
   \<and> (current_timeline c = Inl NoTimeline \<longrightarrow> (\<exists>project. current_project c = Inr project))"
proof (intro conjI allI impI)
  assume absent: "p_resolve c = None"
  show "current_project c = Inl NotConnected"
    using absent
    by (simp add: resolve_absent project_manager_revalidates current_project_revalidates)
next
  show "exc_cls NotConnected = NotConnectedError"
    by (simp add: NotConnected_def)
next
  fix pm
  assume "project_manager c = Inr pm \<and> GetCurrentProject pm = None"
  then show "current_timeline c = Inl NoProject"
    by (simp add: current_project_no_project current_timeline_revalidates)
next
  show "exc_cls NoProject = NoProjectError"
    by (simp add: NoProject_def)
next
  fix e
  assume "resolve c = Inl e"
  then show "project_manager c = Inl e"
    by (rule project_manager_revalidates)
next
  fix e
  assume "project_manager c = Inl e"
  then show "current_project c = Inl e"
    by (rule current_project_revalidates)
next
  fix e
  assume "current_project c = Inl e"
  then show "current_timeline c = Inl e"
    by (rule current_timeline_revalidates)
next
  assume "current_project c = Inl NoProject"
  then show "\<exists>pm. project_manager c = Inr pm"
    by (auto simp: current_project_def project_manager_def resolve_def NoProject_def
          NotConnected_def split: sum.splits option.splits)
next
  assume "current_timeline c = Inl NoTimeline"
  then show "\<exists>project. current_project c = Inr project"
    by (auto simp: current_timeline_def current_project_def project_manager_def resolve_def
          NoProject_def NoTimeline_def NotConnected_def split: sum.splits option.splits)
qed

theorem missing_layer_hierarchy_witness:
  "p_resolve (conn_of None) = None
   \<and> current_project (conn_of None) = Inl NotConnected
   \<and> project_manager conn_no_project = Inr \<lparr>GetCurrentProject = None\<rparr>
   \<and> GetCurrentProject \<lparr>GetCurrentProject = None\<rparr> = None
   \<and> current_timeline conn_no_project = Inl NoProject
   \<and> resolve (conn_of None) = Inl NotConnected
   \<and> project_manager (conn_of None) = Inl NotConnected
   \<and> current_timeline (conn_of None) = Inl NotConnected
   \<and> current_project conn_no_project = Inl NoProject
   \<and> current_timeline conn_no_gallery = Inl NoTimeline
   \<and> current_project conn_no_gallery = Inr project0"
proof -
  have absent: "p_resolve (conn_of None) = None"
    by (simp add: conn_of_def)
  have pm: "project_manager conn_no_project = Inr \<lparr>GetCurrentProject = None\<rparr>"
    by (simp add: project_manager_def resolve_def conn_no_project_def conn_of_def app0_def)
  have r: "resolve (conn_of None) = Inl NotConnected"
    by (simp add: resolve_def conn_of_def)
  have cp: "current_project conn_no_gallery = Inr project0"
    by (simp add: current_project_def project_manager_def resolve_def conn_no_gallery_def
          conn_of_def app0_def)
  have tl: "current_timeline conn_no_gallery = Inl NoTimeline"
    by (simp add: current_timeline_def cp project0_def)
  from missing_layer_hierarchy [of "conn_of None"] absent r
  have a: "current_project (conn_of None) = Inl NotConnected"
    and b: "project_manager (conn_of None) = Inl NotConnected"
    and c: "current_timeline (conn_of None) = Inl NotConnected"
    by auto
  from missing_layer_hierarchy [of conn_no_project] pm
  have d: "current_timeline conn_no_project = Inl NoProject"
    by auto
  have e: "current_project conn_no_project = Inl NoProject"
    by (simp add: current_project_def pm)
  show ?thesis
    using absent pm r cp tl a b c d e by simp
qed

text \<open>
  C9, as stated, fails: connected, with a project open, \<open>gallery\<close> returns \<open>None\<close> when
  the project has no gallery, and \<open>media_storage\<close> returns \<open>None\<close> when the application
  has no media storage; neither raises.
\<close>

theorem accessors_null_counterexample:
  "gallery conn_no_gallery = Inr None \<and> media_storage conn_no_gallery = Inr None"
  by (simp add: gallery_def media_storage_def current_project_def project_manager_def
        resolve_def conn_no_gallery_def conn_of_def app0_def project0_def)

text \<open>
  C9, amended. \<open>project_manager\<close>, \<open>current_project\<close>, \<open>media_pool\<close> and
  \<open>current_timeline\<close> raise a named condition when the layer they return is absent:
  not-connected for a missing project manager (as for a missing handle), no-project,
  no-media-pool and no-timeline. \<open>media_storage\<close> and \<open>gallery\<close> raise only what the
  shallower layers raise (\<open>media_storage\<close>: not-connected, exactly when the handle is
  absent; \<open>gallery\<close>: exactly what \<open>current_project\<close> raises) and otherwise return the
  result of the external call unchecked, which is a null reference when the media storage
  or the gallery is absent.
\<close>

theorem accessors_conditions:
  "(\<forall>r. resolve c = Inr r \<and> GetProjectManager r = None \<longrightarrow>
        project_manager c = Inl (Exc NotConnectedError ''Failed to get Project Manager''))
   \<and> (\<forall>pm. project_manager c = Inr pm \<and> GetCurrentProject pm = None \<longrightarrow>
        current_project c = Inl NoProject)
   \<and> (\<forall>p. current_project c = Inr p \<and> GetMediaPool p = None \<longrightarrow> media_pool c = Inl NoMediaPool)
   \<and> (\<forall>p. current_project c = Inr p \<and> GetCurrentTimeline p = None \<longrightarrow>
        current_timeline c = Inl NoTimeline)
   \<and> (\<forall>e. media_storage c = Inl e \<longleftrightarrow> p_resolve c = None \<and> e = NotConnected)
   \<and> (\<forall>r. p_resolve c = Some r \<longrightarrow> media_storage c = Inr (GetMediaStorage r))
   \<and> (\<forall>e. gallery c = Inl e \<longleftrightarrow> current_project c = Inl e)
   \<and> (\<forall>p. current_project c = Inr p \<longrightarrow> gallery c = Inr (GetGallery p))"
  by (auto simp: project_manager_def current_project_def media_pool_def current_timeline_def
        media_storage_def gallery_def resolve_def split: sum.splits option.splits)

theorem accessors_conditions_witness:
  "resolve (conn_of (Some app0)) = Inr app0 \<and> GetProjectManager app0 = None
   \<and> project_manager (conn_of (Some app0)) =
       Inl (Exc NotConnectedError ''Failed to get Project Manager'')
   \<and> project_manager conn_no_project = Inr \<lparr>GetCurrentProject = None\<rparr>
   \<and> current_project conn_no_project = Inl NoProject
   \<and> current_project conn_no_gallery = Inr project0
   \<and> GetMediaPool project0 = None \<and> media_pool conn_no_gallery = Inl NoMediaPool
   \<and> GetCurrentTimeline project0 = None \<and> current_timeline conn_no_gallery = Inl NoTimeline
   \<and> p_resolve (conn_of None) = None \<and> media_storage (conn_of None) = Inl NotConnected
   \<and> p_resolve (conn_of (Some app0)) = Some app0
   \<and> media_storage (conn_of (Some app0)) = Inr (GetMediaStorage app0)
   \<and> gallery conn_no_project = Inl NoProject
   \<and> gallery conn_no_gallery = Inr (GetGallery project0)"
proof -
  have r: "resolve (conn_of (Some app0)) = Inr app0" "GetProjectManager app0 = None"
    "p_resolve (conn_of (Some app0)) = Some app0" "p_resolve (conn_of None) = None"
    by (simp_all add: resolve_def conn_of_def app0_def)
  have pm: "project_manager conn_no_project = Inr \<lparr>GetCurrentProject = None\<rparr>"
    by (simp add: project_manager_def resolve_def conn_no_project_def conn_of_def app0_def)
  have cp: "current_project conn_no_gallery = Inr project0"
    by (simp add: current_project_def project_manager_def resolve_def conn_no_gallery_def
          conn_of_def app0_def)
  have p0: "GetMediaPool project0 = None" "GetCurrentTimeline project0 = None"
    by (simp_all add: project0_def)
  show ?thesis
    using accessors_conditions [of "conn_of (Some app0)"] accessors_conditions [of "conn_of None"]
      accessors_conditions [of conn_no_project] accessors_conditions [of conn_no_gallery]
      r pm cp p0
    by simp
qed

section \<open>Switching pages\<close>

text \<open>
  C6, as stated, fails. For a string that is no page name, \<open>switch_page\<close> raises the
  built-in \<open>ValueError\<close>, which is not \<open>InvalidParameterError\<close> and no \<open>ResolveError\<close> at
  all. And for a page name, with the application handle absent, nothing is forwarded:
  the call raises not-connected.
\<close>

theorem switch_page_counterexample:
  "fst (switch_page ''render'' (conn_of (Some app0))) = Inl (Exc ValueError invalid_page_message)
   \<and> exc_cls (Exc ValueError invalid_page_message) \<noteq> InvalidParameterError
   \<and> \<not> is_ResolveError (exc_cls (Exc ValueError invalid_page_message))
   \<and> fst (switch_page ''Edit'' (conn_of None)) = Inl NotConnected"
  by (simp add: switch_page_def lower_def lower_char_def valid_pages_def Let_def resolve_def
        conn_of_def)

text \<open>
  C6, amended. For every string \<open>page\<close> equal, up to case, to one of media, cut, edit,
  fusion, color, fairlight, deliver: with the application handle present, \<open>switch_page\<close>
  forwards the lower-cased name to the application and returns its success boolean; with
  the handle absent it raises not-connected and forwards nothing. For every other string
  it raises \<open>ValueError\<close> with the message listing the pages, and forwards nothing.
\<close>

theorem switch_page_checks_page:
  "((\<exists>v \<in> set valid_pages. lower page = lower v) \<and> p_resolve c = Some r \<longrightarrow>
      switch_page page c =
        (Inr (page_available r (lower page)),
         c\<lparr>switch_page_calls := switch_page_calls c @ [page],
           p_resolve := Some (snd (OpenPage (lower page) r))\<rparr>)
      \<and> OpenPage_calls (snd (OpenPage (lower page) r)) = OpenPage_calls r @ [lower page])
   \<and> ((\<exists>v \<in> set valid_pages. lower page = lower v) \<and> p_resolve c = None \<longrightarrow>
      switch_page page c =
        (Inl NotConnected, c\<lparr>switch_page_calls := switch_page_calls c @ [page]\<rparr>))
   \<and> (\<not> (\<exists>v \<in> set valid_pages. lower page = lower v) \<longrightarrow>
      switch_page page c =
        (Inl (Exc ValueError invalid_page_message),
         c\<lparr>switch_page_calls := switch_page_calls c @ [page]\<rparr>))"
proof -
  have eq: "(\<exists>v \<in> set valid_pages. lower page = lower v) \<longleftrightarrow> lower page \<in> set valid_pages"
    using lower_valid_page by metis
  show ?thesis
    unfolding eq
    by (auto simp: switch_page_def Let_def resolve_def OpenPage_def split: prod.splits)
qed

theorem switch_page_checks_page_witness:
  "(\<exists>v \<in> set valid_pages. lower ''FairLight'' = lower v)
   \<and> p_resolve (conn_of (Some app0)) = Some app0
   \<and> fst (switch_page ''FairLight'' (conn_of (Some app0))) = Inr True
   \<and> map_option OpenPage_calls (p_resolve (snd (switch_page ''FairLight'' (conn_of (Some app0)))))
       = Some [''fairlight'']
   \<and> p_resolve (conn_of None) = None
   \<and> fst (switch_page ''FairLight'' (conn_of None)) = Inl NotConnected
   \<and> \<not> (\<exists>v \<in> set valid_pages. lower ''render'' = lower v)
   \<and> switch_page ''render'' (conn_of (Some app0)) =
       (Inl (Exc ValueError invalid_page_message),
        (conn_of (Some app0))\<lparr>switch_page_calls := [''render'']\<rparr>)"
proof -
  have v: "\<exists>v \<in> set valid_pages. lower ''FairLight'' = lower v"
    by (simp add: valid_pages_def lower_def lower_char_def)
  have n: "\<not> (\<exists>v \<in> set valid_pages. lower ''render'' = lower v)"
    by (simp add: valid_pages_def lower_def lower_char_def)
  have h: "p_resolve (conn_of (Some app0)) = Some app0" "p_resolve (conn_of None) = None"
    by (simp_all add: conn_of_def)
  have l: "lower ''FairLight'' = ''fairlight''"
    by (simp add: lower_def lower_char_def)
  show ?thesis
    using switch_page_checks_page [of "''FairLight''" "conn_of (Some app0)" app0]
      switch_page_checks_page [of "''FairLight''" "conn_of None" app0]
      switch_page_checks_page [of "''render''" "conn_of (Some app0)" app0]
      v n h
    by (simp add: l OpenPage_def app0_def conn_of_def)
qed

section \<open>Traversals of the media pool\<close>

text \<open>The loops with their accumulators compute the pre-order listings.\<close>

lemma get_all_clips_loop_eq:
  "get_all_clips_folder f = clips_preorder f"
  "get_all_clips_loop fs clips = clips @ concat (map clips_preorder fs)"
proof (induction f and fs clips rule: get_all_clips_folder_get_all_clips_loop.induct)
  case (1 folder)
  show ?case
    using "1.IH" [OF refl refl refl]
    by (cases folder; cases "GetClipList folder"; cases "GetSubFolderList folder") auto
next
  case (2 clips)
  show ?case by simp
next
  case (3 sub_folder rest clips)
  then show ?case by simp
qed

declare get_all_clips_folder.simps [simp del]

lemma length_clips_preorder: "length (clips_preorder f) = total_clips f"
proof (induction f)
  case (Folder n cl sf)
  show ?case
  proof (cases sf)
    case None
    then show ?thesis by simp
  next
    case (Some fs)
    have "sum_list (map (\<lambda>x. length (clips_preorder x)) fs) = sum_list (map total_clips fs)"
      using Folder Some by (intro arg_cong [where f = sum_list] map_cong) auto
    then show ?thesis
      by (simp add: Some length_concat comp_def)
  qed
qed

lemma mset_clips_preorder: "mset (clips_preorder f) = clips_mset f"
proof (induction f)
  case (Folder n cl sf)
  show ?case
  proof (cases sf)
    case None
    then show ?thesis by simp
  next
    case (Some fs)
    have "sum_list (map (\<lambda>x. mset (clips_preorder x)) fs) = sum_list (map clips_mset fs)"
      using Folder Some by (intro arg_cong [where f = sum_list] map_cong) auto
    then show ?thesis
      by (simp add: Some mset_concat comp_def)
  qed
qed

lemma conn_full_media_pool: "media_pool conn_full = Inr (MediaPool tree0)"
  by (simp add: media_pool_def current_project_def project_manager_def resolve_def
        conn_full_def conn_of_def app0_def)

text \<open>
  C3. For every folder tree, \<open>get_all_clips\<close> returns the clips of the tree in pre-order:
  a folder's own clips, then the results for its sub-folders in the order of the
  sub-folder list. The result has as many entries as the tree has clips (\<open>total_clips\<close>),
  and each clip occurs in it as often as in the tree (\<open>clips_mset\<close>), so exactly once
  when no clip is listed twice in the tree. An absent clip list or sub-folder list counts
  as empty. Called without a folder, the traversal starts at the media pool's root.
\<close>

theorem get_all_clips_preorder_once:
  "get_all_clips_folder f = clips_preorder f
   \<and> length (get_all_clips_folder f) = total_clips f
   \<and> mset (get_all_clips_folder f) = clips_mset f
   \<and> ((\<forall>x. count (clips_mset f) x \<le> 1) \<longrightarrow> distinct (get_all_clips_folder f))
   \<and> get_all_clips_folder (Folder n cl sf) =
       or_empty cl @ concat (map get_all_clips_folder (or_empty sf))
   \<and> get_all_clips_folder (Folder n None None) = []
   \<and> get_all_clips (Some f) c = Inr (get_all_clips_folder f)
   \<and> (\<forall>mp. media_pool c = Inr mp \<longrightarrow>
        get_all_clips None c = Inr (get_all_clips_folder (GetRootFolder mp)))"
proof -
  have once: "distinct (get_all_clips_folder f)" if "\<forall>x. count (clips_mset f) x \<le> 1"
  proof -
    have "count (mset (get_all_clips_folder f)) x \<le> 1" for x
      using that by (simp add: get_all_clips_loop_eq(1) mset_clips_preorder)
    then show ?thesis
      by (simp add: distinct_count_atmost_1 le_Suc_eq)
  qed
  have step: "get_all_clips_folder (Folder n cl sf) =
       or_empty cl @ concat (map get_all_clips_folder (or_empty sf))"
  proof -
    have "get_all_clips_folder = clips_preorder"
      by (rule ext) (rule get_all_clips_loop_eq(1))
    then show ?thesis
      by (cases sf) simp_all
  qed
  show ?thesis
    using once step
    by (simp add: get_all_clips_loop_eq(1) length_clips_preorder mset_clips_preorder
          get_all_clips_def)
qed

theorem get_all_clips_preorder_once_witness:
  "get_all_clips_folder tree0 =
     [Clip ''a.mov'' 1, Clip ''b.mov'' 2, Clip ''c.mov'' 3, Clip ''d.mov'' 4]
   \<and> total_clips tree0 = 4
   \<and> (\<forall>x. count (clips_mset tree0) x \<le> 1)
   \<and> distinct (get_all_clips_folder tree0)
   \<and> media_pool conn_full = Inr (MediaPool tree0)
   \<and> get_all_clips None conn_full =
       Inr [Clip ''a.mov'' 1, Clip ''b.mov'' 2, Clip ''c.mov'' 3, Clip ''d.mov'' 4]"
proof -
  have ev: "get_all_clips_folder tree0 =
     [Clip ''a.mov'' 1, Clip ''b.mov'' 2, Clip ''c.mov'' 3, Clip ''d.mov'' 4]"
    by (simp add: tree0_def get_all_clips_folder.simps)
  have cnt: "\<forall>x. count (clips_mset tree0) x \<le> 1"
    by (auto simp: tree0_def)
  have tot: "total_clips tree0 = 4"
    by (simp add: tree0_def)
  have pre: "clips_preorder tree0 =
     [Clip ''a.mov'' 1, Clip ''b.mov'' 2, Clip ''c.mov'' 3, Clip ''d.mov'' 4]"
    by (simp add: tree0_def)
  show ?thesis
    using get_all_clips_preorder_once [of tree0 "[]" None None conn_full]
      ev pre cnt tot conn_full_media_pool
    by simp
qed

lemma get_all_folders_loop_eq:
  "get_all_folders_folder f = folders_preorder f"
  "get_all_folders_loop fs folders = folders @ concat (map folders_preorder fs)"
proof (induction f and fs folders rule: get_all_folders_folder_get_all_folders_loop.induct)
  case (1 folder)
  show ?case
  proof (cases folder)
    case (Folder n cl sf)
    have "get_all_folders_folder folder = get_all_folders_loop (or_empty sf) [folder]"
      by (simp add: Folder)
    also have "\<dots> = [folder] @ concat (map folders_preorder (or_empty sf))"
      using "1.IH" by (simp add: Folder)
    also have "\<dots> = folders_preorder folder"
      by (cases sf) (simp_all add: Folder)
    finally show ?thesis .
  qed
next
  case (2 folders)
  show ?case by simp
next
  case (3 sub_folder rest folders)
  then show ?case by simp
qed

declare get_all_folders_folder.simps [simp del]

lemma find_folder_loop_find:
  "find_folder_loop fs name = List.find (\<lambda>f. folder_GetName f = name) fs"
  by (induction fs) auto


text \<open>
  C7. For every folder tree: when the name is, up to case, \<open>root\<close> or \<open>master\<close>,
  \<open>find_folder_by_name\<close> returns the media pool's root folder and visits no folder;
  for any other name it returns the first folder of the pre-order listing whose name is
  equal to the name, and nothing when no folder has that name. The media pool must be
  reachable: what \<open>media_pool\<close> raises, the call raises.
\<close>

theorem find_folder_by_name_alias_or_first:
  "(\<forall>mp. (lower name = ''root'' \<or> lower name = ''master'') \<and> media_pool c = Inr mp \<longrightarrow>
        find_folder_by_name name c = Inr (Some (GetRootFolder mp), []))
   \<and> (\<forall>mp. lower name \<noteq> ''root'' \<and> lower name \<noteq> ''master'' \<and> media_pool c = Inr mp \<longrightarrow>
        find_folder_by_name name c =
          Inr (List.find (\<lambda>f. folder_GetName f = name) (folders_preorder (GetRootFolder mp)),
               folders_preorder (GetRootFolder mp)))
   \<and> (\<forall>mp. lower name \<noteq> ''root'' \<and> lower name \<noteq> ''master'' \<and> media_pool c = Inr mp
          \<and> (\<forall>f \<in> set (folders_preorder (GetRootFolder mp)). folder_GetName f \<noteq> name) \<longrightarrow>
        map_sum id fst (find_folder_by_name name c) = Inr None)
   \<and> (\<forall>e. media_pool c = Inl e \<longrightarrow> find_folder_by_name name c = Inl e)"
proof -
  have none: "List.find (\<lambda>f. folder_GetName f = name) fs = None"
    if "\<forall>f \<in> set fs. folder_GetName f \<noteq> name" for fs
    using that by (simp add: find_None_iff)
  show ?thesis
    using none
    by (auto simp: find_folder_by_name_def get_all_folders_def get_all_folders_loop_eq(1)
          find_folder_loop_find)
qed

theorem find_folder_by_name_alias_or_first_witness:
  "lower ''MASTER'' = ''master'' \<and> lower ''root'' = ''root''
   \<and> media_pool conn_full = Inr (MediaPool tree0)
   \<and> find_folder_by_name ''MASTER'' conn_full = Inr (Some tree0, [])
   \<and> find_folder_by_name ''root'' conn_full = Inr (Some tree0, [])
   \<and> lower ''Day1'' \<noteq> ''root'' \<and> lower ''Day1'' \<noteq> ''master''
   \<and> map_sum id fst (find_folder_by_name ''Day1'' conn_full) =
       Inr (Some (Folder ''Day1'' None
         (Some [Folder ''root'' (Some [Clip ''b.mov'' 2, Clip ''c.mov'' 3]) None])))
   \<and> list_all (\<lambda>f. folder_GetName f \<noteq> ''Day3'') (folders_preorder tree0)
   \<and> map_sum id fst (find_folder_by_name ''Day3'' conn_full) = Inr None
   \<and> media_pool conn_no_project = Inl NoProject
   \<and> find_folder_by_name ''Day1'' conn_no_project = Inl NoProject"
proof -
  have l: "lower ''MASTER'' = ''master''" "lower ''root'' = ''root''"
    "lower ''Day1'' = ''day1''" "lower ''Day3'' = ''day3''"
    by (simp_all add: lower_def lower_char_def)
  have np: "media_pool conn_no_project = Inl NoProject"
    by (simp add: media_pool_def current_project_def project_manager_def resolve_def
          conn_no_project_def conn_of_def app0_def)
  have pre: "folders_preorder tree0 =
     [tree0,
      Folder ''Day1'' None (Some [Folder ''root'' (Some [Clip ''b.mov'' 2, Clip ''c.mov'' 3]) None]),
      Folder ''root'' (Some [Clip ''b.mov'' 2, Clip ''c.mov'' 3]) None,
      Folder ''Day2'' (Some []) (Some []),
      Folder ''Day1'' (Some [Clip ''d.mov'' 4]) None]"
    by (simp add: tree0_def)
  have names: "map folder_GetName (folders_preorder tree0) =
     [''Master'', ''Day1'', ''root'', ''Day2'', ''Day1'']"
    by (simp add: pre) (simp add: tree0_def)
  have d3: "\<forall>f \<in> set (folders_preorder tree0). folder_GetName f \<noteq> ''Day3''"
  proof
    fix f
    assume "f \<in> set (folders_preorder tree0)"
    then have "folder_GetName f \<in> set (map folder_GetName (folders_preorder tree0))"
      by simp
    then show "folder_GetName f \<noteq> ''Day3''"
      unfolding names by auto
  qed
  have d3n: "List.find (\<lambda>f. folder_GetName f = ''Day3'') (folders_preorder tree0) = None"
    using d3 by (simp add: find_None_iff)
  have d1: "List.find (\<lambda>f. folder_GetName f = ''Day1'') (folders_preorder tree0) =
      Some (Folder ''Day1'' None
         (Some [Folder ''root'' (Some [Clip ''b.mov'' 2, Clip ''c.mov'' 3]) None]))"
    by (simp add: pre) (simp add: tree0_def)
  show ?thesis
    using find_folder_by_name_alias_or_first [of "''MASTER''" conn_full]
      find_folder_by_name_alias_or_first [of "''root''" conn_full]
      find_folder_by_name_alias_or_first [of "''Day1''" conn_full]
      find_folder_by_name_alias_or_first [of "''Day3''" conn_full]
      find_folder_by_name_alias_or_first [of "''Day1''" conn_no_project]
      l np d3 d3n d1 conn_full_media_pool
    by (simp add: list_all_iff)
qed

section \<open>Timeline items\<close>

lemma find_item_loop_find:
  "find_item_loop items item_id = List.find (\<lambda>i. GetUniqueId i = item_id) items"
  by (induction items) auto

lemma find_append_first:
  "List.find P (xs @ ys) = (case List.find P xs of Some x \<Rightarrow> Some x | None \<Rightarrow> List.find P ys)"
  by (induction xs) auto

lemma find_map_tag:
  "List.find P (map f xs) = map_option f (List.find (\<lambda>x. P (f x)) xs)"
  by (induction xs) auto

lemma find_track_loop_find:
  "find_track_loop timeline track_type idxs item_id =
     List.find (has_id item_id)
       (concat (map (\<lambda>track_idx. map (\<lambda>item. (item, track_type, track_idx))
                       (or_empty (GetItemListInTrack timeline track_type track_idx))) idxs))"
proof (induction idxs)
  case Nil
  show ?case by simp
next
  case (Cons i idxs)
  have inner: "(if truthy_list items then find_item_loop (or_empty items) item_id else None)
                 = List.find (\<lambda>i. GetUniqueId i = item_id) (or_empty items)" for items
    by (cases items) (auto simp: find_item_loop_find)
  show ?case
    by (simp add: Let_def inner find_append_first find_map_tag has_id_def Cons.IH
          split: option.splits)
qed

lemma find_track_type_loop_find:
  "find_track_type_loop timeline types item_id =
     List.find (has_id item_id)
       (concat (map (\<lambda>track_type.
          concat (map (\<lambda>track_idx. map (\<lambda>item. (item, track_type, track_idx))
                       (or_empty (GetItemListInTrack timeline track_type track_idx)))
                  [1..GetTrackCount timeline track_type])) types))"
proof (induction types)
  case Nil
  show ?case by simp
next
  case (Cons t types)
  show ?case
    by (simp add: Let_def find_track_loop_find find_append_first Cons.IH split: option.splits)
qed

lemma conn_full_current_timeline: "current_timeline conn_full = Inr timeline0"
  by (simp add: current_timeline_def current_project_def project_manager_def resolve_def
        conn_full_def conn_of_def app0_def)

lemma scan_order_timeline0:
  "scan_order timeline0 =
     [(TimelineItem ''a1'' 10, ''video'', 2), (TimelineItem ''dup'' 11, ''video'', 2),
      (TimelineItem ''dup'' 12, ''audio'', 1)]"
  by (simp add: scan_order_def timeline0_def upto.simps)

text \<open>
  C5. For every timeline and every \<open>item_id\<close>, \<open>find_timeline_item_by_id\<close> returns the
  first entry, in the scan order (video tracks, then audio tracks, then subtitle tracks;
  within a type, track indices from 1 upwards; within a track, the items in order), whose
  unique identifier is \<open>item_id\<close>, as (item, track type, track index): an item scanned
  earlier wins over a later one with the same identifier. It returns nothing when no item
  has the identifier. The current timeline must be reachable: what \<open>current_timeline\<close>
  raises, the call raises.
\<close>

theorem find_timeline_item_by_id_first_match:
  "find_track_type_loop timeline [''video'', ''audio'', ''subtitle''] item_id =
     List.find (has_id item_id) (scan_order timeline)
   \<and> (\<forall>before found after.
        scan_order timeline = before @ found # after \<and> has_id item_id found
          \<and> (\<forall>x \<in> set before. \<not> has_id item_id x) \<longrightarrow>
        find_track_type_loop timeline [''video'', ''audio'', ''subtitle''] item_id = Some found)
   \<and> ((\<forall>x \<in> set (scan_order timeline). \<not> has_id item_id x) \<longrightarrow>
        find_track_type_loop timeline [''video'', ''audio'', ''subtitle''] item_id = None)
   \<and> (\<forall>tl. current_timeline c = Inr tl \<longrightarrow>
        find_timeline_item_by_id item_id c = Inr (List.find (has_id item_id) (scan_order tl)))
   \<and> (\<forall>e. current_timeline c = Inl e \<longrightarrow> find_timeline_item_by_id item_id c = Inl e)"
proof -
  have eq: "find_track_type_loop tl [''video'', ''audio'', ''subtitle''] item_id =
     List.find (has_id item_id) (scan_order tl)" for tl
    unfolding scan_order_def by (rule find_track_type_loop_find)
  have first: "List.find (has_id item_id) (before @ found # after) = Some found"
    if "has_id item_id found" "\<forall>x \<in> set before. \<not> has_id item_id x" for before found after
  proof -
    have "List.find (has_id item_id) before = None"
      using that(2) by (simp add: find_None_iff)
    then show ?thesis
      using that(1) by (simp add: find_append_first)
  qed
  have none: "List.find (has_id item_id) xs = None" if "\<forall>x \<in> set xs. \<not> has_id item_id x" for xs
    using that by (simp add: find_None_iff)
  show ?thesis
    using first none
    by (auto simp: eq find_timeline_item_by_id_def simp del: find_track_type_loop.simps)
qed

theorem find_timeline_item_by_id_first_match_witness:
  "scan_order timeline0 =
     [(TimelineItem ''a1'' 10, ''video'', 2)] @ (TimelineItem ''dup'' 11, ''video'', 2)
       # [(TimelineItem ''dup'' 12, ''audio'', 1)]
   \<and> has_id ''dup'' (TimelineItem ''dup'' 11, ''video'', 2)
   \<and> list_all (\<lambda>x. \<not> has_id ''dup'' x) [(TimelineItem ''a1'' 10, ''video'', 2)]
   \<and> find_track_type_loop timeline0 [''video'', ''audio'', ''subtitle''] ''dup'' =
       Some (TimelineItem ''dup'' 11, ''video'', 2)
   \<and> list_all (\<lambda>x. \<not> has_id ''b7'' x) (scan_order timeline0)
   \<and> find_track_type_loop timeline0 [''video'', ''audio'', ''subtitle''] ''b7'' = None
   \<and> current_timeline conn_full = Inr timeline0
   \<and> find_timeline_item_by_id ''dup'' conn_full = Inr (Some (TimelineItem ''dup'' 11, ''video'', 2))
   \<and> current_timeline conn_no_project = Inl NoProject
   \<and> find_timeline_item_by_id ''dup'' conn_no_project = Inl NoProject"
proof -
  have np: "current_timeline conn_no_project = Inl NoProject"
    by (simp add: current_timeline_def current_project_def project_manager_def resolve_def
          conn_no_project_def conn_of_def app0_def)
  have ids: "has_id ''dup'' (TimelineItem ''dup'' 11, ''video'', 2)"
    "\<forall>x \<in> set [(TimelineItem ''a1'' 10, ''video'', 2)]. \<not> has_id ''dup'' x"
    "\<forall>x \<in> set (scan_order timeline0). \<not> has_id ''b7'' x"
    by (simp_all add: has_id_def scan_order_timeline0)
  have f: "List.find (has_id ''dup'') (scan_order timeline0) =
      Some (TimelineItem ''dup'' 11, ''video'', 2)"
    by (simp add: scan_order_timeline0 has_id_def)
  show ?thesis
    using find_timeline_item_by_id_first_match [of timeline0 "''dup''" conn_full]
      find_timeline_item_by_id_first_match [of timeline0 "''b7''" conn_full]
      find_timeline_item_by_id_first_match [of timeline0 "''dup''" conn_no_project]
      np ids f conn_full_current_timeline scan_order_timeline0
    by (simp add: list_all_iff)
qed

section \<open>The error-to-string wrapper\<close>

text \<open>
  C2, as stated, fails: the wrapper does propagate an exception. A handler that raises
  \<open>KeyboardInterrupt\<close> (or \<open>SystemExit\<close>), whose class derives from \<open>BaseException\<close> only, is
  caught by neither \<open>except ResolveError\<close> nor \<open>except Exception\<close>, and the wrapped handler
  raises it.
\<close>

theorem handle_resolve_errors_counterexample:
  "handler_raises (BaseOnly KeyboardInterrupt []) conn_full =
     (Inl (BaseOnly KeyboardInterrupt []), conn_full)
   \<and> handle_resolve_errors handler_raises (BaseOnly KeyboardInterrupt []) conn_full =
     (Inl (BaseOnly KeyboardInterrupt []), conn_full)
   \<and> isl (fst (handle_resolve_errors handler_raises (BaseOnly SystemExit ''1'') conn_full))"
  by (simp add: handle_resolve_errors_def handler_raises_def)

text \<open>
  C2, amended. For every handler, every argument and every state: when the handler returns
  a value, the wrapped handler returns that value; when the handler raises an exception
  whose class derives from \<open>Exception\<close>, a \<open>ResolveError\<close> or any other, the wrapped handler
  raises nothing and returns the string \<open>Error: \<close> followed by the text of the exception;
  when the handler raises an exception whose class derives from \<open>BaseException\<close> only
  (\<open>KeyboardInterrupt\<close>, \<open>SystemExit\<close>, \<open>GeneratorExit\<close>), the wrapped handler raises it. So
  the wrapped handler raises exactly in the last case. The state is the one the handler
  left. (The two log messages are not part of the model.)
\<close>

theorem handle_resolve_errors_catches_Exception:
  "(\<forall>v c1. func args c = (Inr v, c1) \<longrightarrow>
       handle_resolve_errors func args c = (Inr (Returned v), c1))
   \<and> (\<forall>e c1. func args c = (Inl (ExceptionInstance e), c1) \<longrightarrow>
       handle_resolve_errors func args c = (Inr (ErrorString (''Error: '' @ exc_str e)), c1))
   \<and> (\<forall>k m c1. func args c = (Inl (BaseOnly k m), c1) \<longrightarrow>
       handle_resolve_errors func args c = (Inl (BaseOnly k m), c1))
   \<and> (isl (fst (handle_resolve_errors func args c)) \<longleftrightarrow>
        (\<exists>k m. fst (func args c) = Inl (BaseOnly k m)))"
proof -
  obtain r c1 where f: "func args c = (r, c1)"
    by (cases "func args c")
  show ?thesis
  proof (cases r)
    case (Inl x)
    then show ?thesis
      by (cases x) (simp_all add: handle_resolve_errors_def f)
  next
    case (Inr v)
    then show ?thesis
      by (simp add: handle_resolve_errors_def f)
  qed
qed

theorem handle_resolve_errors_catches_Exception_witness:
  "handler_returns 7 conn_full = (Inr 7, conn_full)
   \<and> handle_resolve_errors handler_returns 7 conn_full = (Inr (Returned 7), conn_full)
   \<and> handler_raises (ExceptionInstance NoProject) conn_full =
       (Inl (ExceptionInstance NoProject), conn_full)
   \<and> handle_resolve_errors handler_raises (ExceptionInstance NoProject) conn_full =
       (Inr (ErrorString ''Error: No project currently open''), conn_full)
   \<and> handler_raises (ExceptionInstance (Exc AttributeError ''no attribute'')) conn_full =
       (Inl (ExceptionInstance (Exc AttributeError ''no attribute'')), conn_full)
   \<and> handle_resolve_errors handler_raises (ExceptionInstance (Exc AttributeError ''no attribute''))
         conn_full =
       (Inr (ErrorString ''Error: no attribute''), conn_full)
   \<and> handler_raises (BaseOnly SystemExit ''1'') conn_full = (Inl (BaseOnly SystemExit ''1''), conn_full)
   \<and> handle_resolve_errors handler_raises (BaseOnly SystemExit ''1'') conn_full =
       (Inl (BaseOnly SystemExit ''1''), conn_full)
   \<and> \<not> isl (fst (handle_resolve_errors handler_raises (ExceptionInstance NoProject) conn_full))"
  using handle_resolve_errors_catches_Exception [of handler_returns 7 conn_full]
    handle_resolve_errors_catches_Exception [of handler_raises "ExceptionInstance NoProject" conn_full]
    handle_resolve_errors_catches_Exception
      [of handler_raises "ExceptionInstance (Exc AttributeError ''no attribute'')" conn_full]
    handle_resolve_errors_catches_Exception [of handler_raises "BaseOnly SystemExit ''1''" conn_full]
  by (simp add: handler_returns_def handler_raises_def NoProject_def)

section \<open>Reconnecting\<close>

text \<open>
  C10. After \<open>reconnect\<close>, the cached handle is the one the new attempt acquired, whatever
  the handle was before: when the attempt fails (the import fails, an exception is raised,
  or the handle is null) the handle is \<open>None\<close> and \<open>is_connected\<close> is false, also for a
  connection that worked before the call. The boolean that \<open>reconnect\<close> returns is the
  resulting \<open>is_connected\<close>.
\<close>

theorem reconnect_reflects_attempt:
  "p_resolve (snd (reconnect outcome c)) = attempt_handle outcome
   \<and> is_connected (snd (reconnect outcome c)) = (attempt_handle outcome \<noteq> None)
   \<and> fst (reconnect outcome c) = is_connected (snd (reconnect outcome c))
   \<and> (attempt_handle outcome = None \<longrightarrow>
        p_resolve (snd (reconnect outcome c)) = None \<and> \<not> fst (reconnect outcome c))"
proof -
  have h: "p_resolve (p_connect outcome c) = attempt_handle outcome"
  proof (cases outcome)
    case (ImportFails m)
    then show ?thesis by (simp add: p_connect_def connect_try_def)
  next
    case (ScriptappRaises e)
    then show ?thesis by (simp add: p_connect_def connect_try_def)
  next
    case (ScriptappReturns h)
    then show ?thesis
      by (cases h) (auto simp: p_connect_def connect_try_def Let_def split: sum.splits)
  qed
  show ?thesis
    by (simp add: reconnect_def Let_def is_connected_def h)
qed

theorem reconnect_reflects_attempt_witness:
  "is_connected conn_full
   \<and> attempt_handle (ImportFails ''No module named DaVinciResolveScript'') = None
   \<and> p_resolve (snd (reconnect (ImportFails ''No module named DaVinciResolveScript'') conn_full))
       = None
   \<and> \<not> fst (reconnect (ImportFails ''No module named DaVinciResolveScript'') conn_full)
   \<and> attempt_handle (ScriptappReturns None) = None
   \<and> \<not> is_connected (snd (reconnect (ScriptappReturns None) conn_full))
   \<and> attempt_handle (ScriptappRaises (Exc OtherException ''socket closed'')) = None
   \<and> \<not> is_connected (snd (reconnect (ScriptappRaises (Exc OtherException ''socket closed''))
                              conn_full))
   \<and> attempt_handle (ScriptappReturns (Some app0)) = Some app0
   \<and> reconnect (ScriptappReturns (Some app0)) (conn_of None) = (True, conn_of (Some app0))"
proof -
  have c: "is_connected conn_full"
    by (simp add: is_connected_def conn_full_def conn_of_def)
  have a: "attempt_handle (ScriptappReturns (Some app0)) = Some app0"
    by (simp add: app0_def)
  have r: "snd (reconnect (ScriptappReturns (Some app0)) (conn_of None)) = conn_of (Some app0)"
    by (simp add: reconnect_def p_connect_def connect_try_def Let_def conn_of_def app0_def)
  show ?thesis
    using reconnect_reflects_attempt [of "ImportFails ''No module named DaVinciResolveScript''" conn_full]
      reconnect_reflects_attempt [of "ScriptappReturns None" conn_full]
      reconnect_reflects_attempt [of "ScriptappRaises (Exc OtherException ''socket closed'')" conn_full]
      reconnect_reflects_attempt [of "ScriptappReturns (Some app0)" "conn_of None"]
      c a r
    by (simp add: prod_eq_iff)
qed

section \<open>The page-scoped wrapper\<close>

lemma switch_page_trace: "switch_page_calls (snd (switch_page p c)) = switch_page_calls c @ [p]"
  by (simp add: switch_page_def Let_def OpenPage_def split: sum.splits prod.splits)

text \<open>
  C4. The page-scoped wrapper records the current page (when reading it raises, nothing
  else happens). When the recorded page is the target, it makes no call of \<open>switch_page\<close>
  and is the handler. Otherwise it calls \<open>switch_page\<close> with the target, then the handler
  (not run when that switch raises), and on the way out, whether the handler returned or
  raised, or the first switch raised, it calls \<open>switch_page\<close> with the recorded page if
  and only if that page is non-empty: the trace of \<open>switch_page\<close> calls ends with the
  recorded page exactly then. The wrapper's outcome is the handler's, unless the switch
  back raises.
\<close>

theorem with_page_restores:
  "(\<forall>e. get_current_page c = Inl e \<longrightarrow> with_page page func args c = (Inl e, c))
   \<and> (get_current_page c = Inr (Some page) \<longrightarrow> with_page page func args c = func args c)
   \<and> (\<forall>p ok c1 r c2.
        get_current_page c = Inr (Some p) \<and> p \<noteq> [] \<and> p \<noteq> page
          \<and> switch_page page c = (Inr ok, c1) \<and> func args c1 = (r, c2) \<longrightarrow>
        with_page page func args c =
          (case switch_page p c2 of (Inl e, c3) \<Rightarrow> (Inl e, c3) | (Inr ok', c3) \<Rightarrow> (r, c3))
        \<and> switch_page_calls c1 = switch_page_calls c @ [page]
        \<and> switch_page_calls (snd (with_page page func args c)) = switch_page_calls c2 @ [p])
   \<and> (\<forall>p e c1.
        get_current_page c = Inr (Some p) \<and> p \<noteq> [] \<and> p \<noteq> page
          \<and> switch_page page c = (Inl e, c1) \<longrightarrow>
        with_page page func args c =
          (case switch_page p c1 of (Inl e', c3) \<Rightarrow> (Inl e', c3) | (Inr ok', c3) \<Rightarrow> (Inl e, c3))
        \<and> switch_page_calls (snd (with_page page func args c)) = switch_page_calls c @ [page, p])
   \<and> (\<forall>original_page ok c1.
        get_current_page c = Inr original_page \<and> \<not> truthy_str original_page
          \<and> original_page \<noteq> Some page \<and> switch_page page c = (Inr ok, c1) \<longrightarrow>
        with_page page func args c = func args c1)
   \<and> (\<forall>original_page e c1.
        get_current_page c = Inr original_page \<and> \<not> truthy_str original_page
          \<and> original_page \<noteq> Some page \<and> switch_page page c = (Inl e, c1) \<longrightarrow>
        with_page page func args c = (Inl e, c1))"
proof (intro conjI allI impI)
  fix e
  assume "get_current_page c = Inl e"
  then show "with_page page func args c = (Inl e, c)"
    by (simp add: with_page_def)
next
  assume "get_current_page c = Inr (Some page)"
  then show "with_page page func args c = func args c"
    by (simp add: with_page_def try_finally_def split: prod.splits)
next
  fix p ok c1 r c2
  assume h: "get_current_page c = Inr (Some p) \<and> p \<noteq> [] \<and> p \<noteq> page
          \<and> switch_page page c = (Inr ok, c1) \<and> func args c1 = (r, c2)"
  obtain rb c3 where sb: "switch_page p c2 = (rb, c3)"
    by (cases "switch_page p c2")
  have w: "with_page page func args c =
          (case switch_page p c2 of (Inl e, c3) \<Rightarrow> (Inl e, c3) | (Inr ok', c3) \<Rightarrow> (r, c3))"
    using h sb by (cases rb) (simp_all add: with_page_def try_finally_def)
  show "with_page page func args c =
          (case switch_page p c2 of (Inl e, c3) \<Rightarrow> (Inl e, c3) | (Inr ok', c3) \<Rightarrow> (r, c3))"
    by (rule w)
  show "switch_page_calls c1 = switch_page_calls c @ [page]"
    using h switch_page_trace [of page c] by simp
  have "snd (with_page page func args c) = snd (switch_page p c2)"
    unfolding w using sb by (cases rb) simp_all
  then show "switch_page_calls (snd (with_page page func args c)) = switch_page_calls c2 @ [p]"
    by (simp add: switch_page_trace)
next
  fix p e c1
  assume h: "get_current_page c = Inr (Some p) \<and> p \<noteq> [] \<and> p \<noteq> page
          \<and> switch_page page c = (Inl e, c1)"
  obtain rb c3 where sb: "switch_page p c1 = (rb, c3)"
    by (cases "switch_page p c1")
  have w: "with_page page func args c =
          (case switch_page p c1 of (Inl e', c3) \<Rightarrow> (Inl e', c3) | (Inr ok', c3) \<Rightarrow> (Inl e, c3))"
    using h sb by (cases rb) (simp_all add: with_page_def try_finally_def)
  show "with_page page func args c =
          (case switch_page p c1 of (Inl e', c3) \<Rightarrow> (Inl e', c3) | (Inr ok', c3) \<Rightarrow> (Inl e, c3))"
    by (rule w)
  have "snd (with_page page func args c) = snd (switch_page p c1)"
    unfolding w using sb by (cases rb) simp_all
  moreover have "switch_page_calls c1 = switch_page_calls c @ [page]"
    using h switch_page_trace [of page c] by simp
  ultimately show "switch_page_calls (snd (with_page page func args c)) = switch_page_calls c @ [page, p]"
    by (simp add: switch_page_trace)
next
  fix original_page ok c1
  assume "get_current_page c = Inr original_page \<and> \<not> truthy_str original_page
          \<and> original_page \<noteq> Some page \<and> switch_page page c = (Inr ok, c1)"
  then show "with_page page func args c = func args c1"
    by (simp add: with_page_def try_finally_def split: prod.splits)
next
  fix original_page e c1
  assume "get_current_page c = Inr original_page \<and> \<not> truthy_str original_page
          \<and> original_page \<noteq> Some page \<and> switch_page page c = (Inl e, c1)"
  then show "with_page page func args c = (Inl e, c1)"
    by (simp add: with_page_def try_finally_def split: prod.splits)
qed

theorem with_page_restores_witness:
  "get_current_page conn_full = Inr (Some ''edit'')
   \<and> switch_page ''color'' conn_full = (Inr True, snd (switch_page ''color'' conn_full))
   \<and> raising (Exc ValueError ''boom'') (snd (switch_page ''color'' conn_full)) =
       (Inl (Exc ValueError ''boom''), snd (switch_page ''color'' conn_full))
   \<and> fst (with_page ''color'' raising (Exc ValueError ''boom'') conn_full) =
       Inl (Exc ValueError ''boom'')
   \<and> switch_page_calls (snd (with_page ''color'' raising (Exc ValueError ''boom'') conn_full)) =
       [''color'', ''edit'']
   \<and> map_option OpenPage_calls
         (p_resolve (snd (with_page ''color'' raising (Exc ValueError ''boom'') conn_full))) =
       Some [''color'', ''edit'']
   \<and> map_option GetCurrentPage
         (p_resolve (snd (with_page ''color'' raising (Exc ValueError ''boom'') conn_full))) =
       Some (Some ''edit'')
   \<and> with_page ''edit'' returning 7 conn_full = (Inr 7, conn_full)
   \<and> get_current_page (conn_of None) = Inl NotConnected
   \<and> with_page ''color'' returning 7 (conn_of None) = (Inl NotConnected, conn_of None)
   \<and> get_current_page (conn_of (Some (app0\<lparr>GetCurrentPage := None\<rparr>))) = Inr None
   \<and> \<not> truthy_str None
   \<and> fst (with_page ''color'' returning 7 (conn_of (Some (app0\<lparr>GetCurrentPage := None\<rparr>)))) =
       Inr 7
   \<and> switch_page_calls
         (snd (with_page ''color'' returning 7 (conn_of (Some (app0\<lparr>GetCurrentPage := None\<rparr>))))) =
       [''color'']
   \<and> fst (switch_page ''render'' conn_full) = Inl (Exc ValueError invalid_page_message)
   \<and> fst (with_page ''render'' returning 7 conn_full) = Inl (Exc ValueError invalid_page_message)
   \<and> switch_page_calls (snd (with_page ''render'' returning 7 conn_full)) = [''render'', ''edit'']"
proof -
  have l: "lower ''color'' = ''color''" "lower ''edit'' = ''edit''" "lower ''render'' = ''render''"
    by (simp_all add: lower_def lower_char_def)
  have g: "get_current_page conn_full = Inr (Some ''edit'')"
    "get_current_page (conn_of None) = Inl NotConnected"
    "get_current_page (conn_of (Some (app0\<lparr>GetCurrentPage := None\<rparr>))) = Inr None"
    by (simp_all add: get_current_page_def resolve_def conn_full_def conn_of_def app0_def)
  have s1: "switch_page ''color'' conn_full = (Inr True, snd (switch_page ''color'' conn_full))"
    by (simp add: switch_page_def l valid_pages_def Let_def resolve_def OpenPage_def
          conn_full_def conn_of_def app0_def)
  have s2: "switch_page ''color'' (conn_of (Some (app0\<lparr>GetCurrentPage := None\<rparr>))) =
      (Inr True, snd (switch_page ''color'' (conn_of (Some (app0\<lparr>GetCurrentPage := None\<rparr>)))))"
    by (simp add: switch_page_def l valid_pages_def Let_def resolve_def OpenPage_def
          conn_of_def app0_def)
  have s3: "switch_page ''render'' conn_full =
      (Inl (Exc ValueError invalid_page_message), snd (switch_page ''render'' conn_full))"
    by (simp add: switch_page_def l valid_pages_def Let_def)
  have h: "raising (Exc ValueError ''boom'') (snd (switch_page ''color'' conn_full)) =
       (Inl (Exc ValueError ''boom''), snd (switch_page ''color'' conn_full))"
    "returning 7 (snd (switch_page ''color'' (conn_of (Some (app0\<lparr>GetCurrentPage := None\<rparr>))))) =
       (Inr 7, snd (switch_page ''color'' (conn_of (Some (app0\<lparr>GetCurrentPage := None\<rparr>)))))"
    "returning 7 conn_full = (Inr 7, conn_full)"
    by (simp_all add: raising_def returning_def)
  have sw1: "switch_page ''edit'' (snd (switch_page ''color'' conn_full)) =
      (Inr True,
       conn_of (Some (app0\<lparr>GetProjectManager := GetProjectManager (the (p_resolve conn_full)),
                           OpenPage_calls := [''color'', ''edit'']\<rparr>))
         \<lparr>switch_page_calls := [''color'', ''edit'']\<rparr>)"
    by (simp add: switch_page_def l valid_pages_def Let_def resolve_def OpenPage_def
          conn_full_def conn_of_def app0_def)
  have sw2: "switch_page ''edit'' (snd (switch_page ''render'' conn_full)) =
      (Inr True,
       conn_of (Some (app0\<lparr>GetProjectManager := GetProjectManager (the (p_resolve conn_full)),
                           OpenPage_calls := [''edit'']\<rparr>))
         \<lparr>switch_page_calls := [''render'', ''edit'']\<rparr>)"
    by (simp add: switch_page_def l valid_pages_def Let_def resolve_def OpenPage_def
          conn_full_def conn_of_def app0_def)
  have tr: "switch_page_calls conn_full = []"
    "switch_page_calls (conn_of (Some (app0\<lparr>GetCurrentPage := None\<rparr>))) = []"
    by (simp_all add: conn_full_def conn_of_def)
  note a = with_page_restores [of conn_full "''color''" raising "Exc ValueError ''boom''"]
  note b = with_page_restores [of conn_full "''edit''" returning 7]
  note c = with_page_restores [of "conn_of None" "''color''" returning 7]
  note d = with_page_restores [of "conn_of (Some (app0\<lparr>GetCurrentPage := None\<rparr>))" "''color''"
      returning 7]
  note e = with_page_restores [of conn_full "''render''" returning 7]
  have a1: "with_page ''color'' raising (Exc ValueError ''boom'') conn_full =
      (Inl (Exc ValueError ''boom''),
       conn_of (Some (app0\<lparr>GetProjectManager := GetProjectManager (the (p_resolve conn_full)),
                           OpenPage_calls := [''color'', ''edit'']\<rparr>))
         \<lparr>switch_page_calls := [''color'', ''edit'']\<rparr>)"
    using a g(1) s1 h(1) sw1 by simp
  have b1: "with_page ''edit'' returning 7 conn_full = (Inr 7, conn_full)"
    using b g(1) h(3) by simp
  have c1: "with_page ''color'' returning 7 (conn_of None) = (Inl NotConnected, conn_of None)"
    using c g(2) by simp
  have d1: "with_page ''color'' returning 7 (conn_of (Some (app0\<lparr>GetCurrentPage := None\<rparr>))) =
      (Inr 7, snd (switch_page ''color'' (conn_of (Some (app0\<lparr>GetCurrentPage := None\<rparr>)))))"
    using d g(3) s2 h(2) by simp
  have e1: "with_page ''render'' returning 7 conn_full =
      (Inl (Exc ValueError invalid_page_message),
       conn_of (Some (app0\<lparr>GetProjectManager := GetProjectManager (the (p_resolve conn_full)),
                           OpenPage_calls := [''edit'']\<rparr>))
         \<lparr>switch_page_calls := [''render'', ''edit'']\<rparr>)"
    using e g(1) s3 sw2 by simp
  have p4: "fst (with_page ''color'' raising (Exc ValueError ''boom'') conn_full) =
       Inl (Exc ValueError ''boom'')"
    by (simp add: a1)
  have p5: "switch_page_calls (snd (with_page ''color'' raising (Exc ValueError ''boom'') conn_full))
       = [''color'', ''edit'']"
    by (simp add: a1)
  have p6: "map_option OpenPage_calls
         (p_resolve (snd (with_page ''color'' raising (Exc ValueError ''boom'') conn_full))) =
       Some [''color'', ''edit'']"
    by (simp add: a1 conn_of_def)
  have p7: "map_option GetCurrentPage
         (p_resolve (snd (with_page ''color'' raising (Exc ValueError ''boom'') conn_full))) =
       Some (Some ''edit'')"
    by (simp add: a1 conn_of_def app0_def)
  have p12: "\<not> truthy_str None"
    by simp
  have p13: "fst (with_page ''color'' returning 7 (conn_of (Some (app0\<lparr>GetCurrentPage := None\<rparr>))))
       = Inr 7"
    by (simp add: d1)
  have p14: "switch_page_calls
         (snd (with_page ''color'' returning 7 (conn_of (Some (app0\<lparr>GetCurrentPage := None\<rparr>)))))
       = [''color'']"
    by (simp add: d1 switch_page_trace tr)
  have p15: "fst (switch_page ''render'' conn_full) = Inl (Exc ValueError invalid_page_message)"
    using s3 by (simp add: prod_eq_iff)
  have p16: "fst (with_page ''render'' returning 7 conn_full) =
       Inl (Exc ValueError invalid_page_message)"
    by (simp add: e1)
  have p17: "switch_page_calls (snd (with_page ''render'' returning 7 conn_full)) =
       [''render'', ''edit'']"
    by (simp add: e1)
  show ?thesis
    by (intro conjI) (fact g s1 h(1) p4 p5 p6 p7 b1 c1 p12 p13 p14 p15 p16 p17)+
qed

section \<open>The singleton\<close>











end
